theory Spec2Isabelle
  imports Main "HOL-Library.Word"
begin

unbundle bit_operations_syntax

section \<open>Data model (response_executor.h)\<close>

text \<open>
  The C enums are \<open>int\<close>-valued: a request may carry any integer in its \<open>type\<close> field, and
  the dispatcher's \<open>switch\<close> has a \<open>default\<close> branch for the values it has no case for. The
  enumerators are therefore named integer constants, with the values the header gives them.
\<close>

definition RESPONSE_LOCKDOWN :: int where "RESPONSE_LOCKDOWN = 1"
definition RESPONSE_NETWORK_ISOLATE :: int where "RESPONSE_NETWORK_ISOLATE = 2"
definition RESPONSE_SERVICE_FAILOVER :: int where "RESPONSE_SERVICE_FAILOVER = 3"
definition RESPONSE_EVACUATION :: int where "RESPONSE_EVACUATION = 4"
definition RESPONSE_BACKUP_ACTIVATE :: int where "RESPONSE_BACKUP_ACTIVATE = 5"
definition RESPONSE_COMMS_PRIORITY :: int where "RESPONSE_COMMS_PRIORITY = 6"
definition RESPONSE_PARTIAL_CONTAIN :: int where "RESPONSE_PARTIAL_CONTAIN = 7"
definition RESPONSE_FULL_RECOVERY :: int where "RESPONSE_FULL_RECOVERY = 8"

definition MODE_NORMAL :: int where "MODE_NORMAL = 0"

definition RESPONSE_ERROR_INIT_FAILED :: int where "RESPONSE_ERROR_INIT_FAILED = - 1"
definition RESPONSE_ERROR_INVALID_PARAM :: int where "RESPONSE_ERROR_INVALID_PARAM = - 2"
definition RESPONSE_ERROR_CRITICAL_FAILURE :: int where "RESPONSE_ERROR_CRITICAL_FAILURE = - 99"

definition AUTH_LEVEL_5 :: int where "AUTH_LEVEL_5 = 5"

text \<open>
  \<open>integrated_response_t\<close>. The fixed-width unsigned fields are words of that width; the
  \<open>char[64]\<close> buffer is the byte string it holds up to its terminator.
\<close>

record integrated_response_t =
  type :: int
  severity :: "8 word"
  target_zones :: "32 word"
  duration :: "32 word"
  auth_level :: int
  trigger_event :: string
  timestamp :: "64 word"
  retry_count :: "32 word"
  timeout_seconds :: "16 word"

text \<open>
  \<open>execution_report_t\<close>. \<open>overall_result\<close> is an \<open>int32_t\<close> that only ever holds one of
  the handlers' small return codes, so it is an \<open>int\<close>.
\<close>

record execution_report_t =
  response_id :: "64 word"
  overall_result :: int
  start_time :: "64 word"
  end_time :: "64 word"
  sub_operations :: "32 word"
  success_count :: "32 word"
  failed_count :: "32 word"
  warning_count :: "32 word"
  system_mode :: int
  status_summary :: string
  error_details :: string

section \<open>The environment of the executor\<close>

text \<open>
  Every call that leaves the executor is logged, in program order, in a trace. The subsystem
  controllers (the functions the source file itself calls "stub implementations of missing
  functions"), \<open>system\<close>, \<open>time\<close>, \<open>usleep\<close> and the pthread calls each have an event.
  Of the \<open>printf\<close> output only the tally line that ends the lockdown sequence is logged, since
  it is the one place where that handler's local counters leave the function.
\<close>

datatype event =
    E_system string
  | E_time
  | E_usleep nat
  | E_lockdown_physical_access "32 word" "32 word"
  | E_isolate_network_segments "32 word" "8 word"
  | E_stop_non_critical_services "32 word"
  | E_enhance_surveillance "32 word"
  | E_unlock_evacuation_routes "32 word"
  | E_activate_evacuation_lights "32 word"
  | E_power_down_non_essential "32 word"
  | E_enable_emergency_comms
  | E_activate_emergency_backups "8 word"
  | E_execute_partial_containment
  | E_execute_recovery_sequence
  | E_check_hardware_readiness
  | E_init_network_subsystem
  | E_init_access_control
  | E_restore_normal_access
  | E_cleanup_network_rules
  | E_stop_emergency_services
  | E_pthread_mutex_init
  | E_pthread_mutex_lock
  | E_pthread_mutex_unlock
  | E_pthread_mutex_destroy
  | E_pthread_create integrated_response_t
  | E_pthread_detach
  | E_printf_lockdown_tally "32 word" "32 word"

text \<open>
  What the outside world answers. The controllers answer as a function of their arguments.
  \<open>system\<close> and \<open>time\<close> answer as a function of the number of calls logged before them, so
  that two calls, even with the same command, may get different answers.
\<close>

record env =
  lockdown_physical_access :: "32 word \<Rightarrow> 32 word \<Rightarrow> int"
  isolate_network_segments :: "32 word \<Rightarrow> 8 word \<Rightarrow> int"
  stop_non_critical_services :: "32 word \<Rightarrow> int"
  enhance_surveillance :: "32 word \<Rightarrow> int"
  unlock_evacuation_routes :: "32 word \<Rightarrow> int"
  activate_emergency_backups :: "8 word \<Rightarrow> int"
  execute_partial_containment :: "integrated_response_t \<Rightarrow> int"
  execute_recovery_sequence :: "integrated_response_t \<Rightarrow> int"
  check_hardware_readiness :: bool
  init_network_subsystem :: int
  init_access_control :: int
  pthread_mutex_init :: int
  system_rv :: "nat \<Rightarrow> int"
  time_rv :: "nat \<Rightarrow> 64 word"

text \<open>
  The stub bodies of \<open>response_executor.c\<close>, lines 38 to 115: every controller succeeds.
  \<open>system\<close> and \<open>time\<close> stay parameters.
\<close>

definition stubs :: "(nat \<Rightarrow> int) \<Rightarrow> (nat \<Rightarrow> 64 word) \<Rightarrow> env" where
  "stubs sys clock =
     \<lparr> lockdown_physical_access = (\<lambda>zones duration. 0),
       isolate_network_segments = (\<lambda>zones severity. 0),
       stop_non_critical_services = (\<lambda>zones. 0),
       enhance_surveillance = (\<lambda>zones. 0),
       unlock_evacuation_routes = (\<lambda>zones. 0),
       activate_emergency_backups = (\<lambda>severity. 0),
       execute_partial_containment = (\<lambda>response. 0),
       execute_recovery_sequence = (\<lambda>response. 0),
       check_hardware_readiness = True,
       init_network_subsystem = 0,
       init_access_control = 0,
       pthread_mutex_init = 0,
       system_rv = sys,
       time_rv = clock \<rparr>"

text \<open>
  The static \<open>subsystem_state\<close> of the source, together with the trace. The mutex has no
  field: the model is sequential, and its use shows in the trace.
\<close>

record subsystem_state =
  initialized :: bool
  emergency_mode :: bool
  current_level :: "8 word"
  last_report :: execution_report_t
  trace :: "event list"

definition zero_report :: execution_report_t where
  "zero_report =
     \<lparr> response_id = 0, overall_result = 0, start_time = 0, end_time = 0,
       sub_operations = 0, success_count = 0, failed_count = 0, warning_count = 0,
       system_mode = 0, status_summary = [], error_details = [] \<rparr>"

text \<open>The state of the static initializer \<open>{0}\<close>.\<close>

definition initial_state :: subsystem_state where
  "initial_state =
     \<lparr> initialized = False, emergency_mode = False, current_level = 0,
       last_report = zero_report, trace = [] \<rparr>"

definition emit :: "event \<Rightarrow> subsystem_state \<Rightarrow> subsystem_state" where
  "emit e s = s\<lparr>trace := trace s @ [e]\<rparr>"

definition c_system :: "env \<Rightarrow> string \<Rightarrow> subsystem_state \<Rightarrow> int \<times> subsystem_state" where
  "c_system ev cmd s = (system_rv ev (length (trace s)), emit (E_system cmd) s)"

definition c_time :: "env \<Rightarrow> subsystem_state \<Rightarrow> 64 word \<times> subsystem_state" where
  "c_time ev s = (time_rv ev (length (trace s)), emit E_time s)"

text \<open>\<open>snprintf(buf, n, ...)\<close> keeps at most \<open>n - 1\<close> bytes of the formatted text.\<close>

definition snprintf :: "nat \<Rightarrow> string \<Rightarrow> string" where
  "snprintf n str = take (n - 1) str"

text \<open>\<open>%d\<close> of a value that is never negative here (the loop index).\<close>

definition digit :: "nat \<Rightarrow> char" where
  "digit d = ''0123456789'' ! d"

fun dec :: "nat \<Rightarrow> string" where
  "dec n = (if n < 10 then [digit n] else dec (n div 10) @ [digit (n mod 10)])"

section \<open>String literals of the source\<close>

text \<open>
  The status summaries and the trigger description are Chinese text, stored by the C compiler
  as UTF-8 bytes. Each constant below is the byte sequence of one literal; the line is where
  \<open>response_executor.c\<close> has it.
\<close>

text \<open>Line 286 (30 bytes).\<close>

definition summary_lockdown :: string where
  "summary_lockdown =
     [CHR 0xE5, CHR 0x85, CHR 0xA8, CHR 0xE9, CHR 0x9D, CHR 0xA2,
      CHR 0xE5, CHR 0xB0, CHR 0x81, CHR 0xE9, CHR 0x94, CHR 0x81,
      CHR 0xE5, CHR 0xBA, CHR 0x8F, CHR 0xE5, CHR 0x88, CHR 0x97,
      CHR 0xE6, CHR 0x89, CHR 0xA7, CHR 0xE8, CHR 0xA1, CHR 0x8C,
      CHR 0xE5, CHR 0xAE, CHR 0x8C, CHR 0xE6, CHR 0x88, CHR 0x90]"

text \<open>Line 290 (24 bytes).\<close>

definition summary_network_isolate :: string where
  "summary_network_isolate =
     [CHR 0xE7, CHR 0xBD, CHR 0x91, CHR 0xE7, CHR 0xBB, CHR 0x9C,
      CHR 0xE9, CHR 0x9A, CHR 0x94, CHR 0xE7, CHR 0xA6, CHR 0xBB,
      CHR 0xE6, CHR 0x89, CHR 0xA7, CHR 0xE8, CHR 0xA1, CHR 0x8C,
      CHR 0xE5, CHR 0xAE, CHR 0x8C, CHR 0xE6, CHR 0x88, CHR 0x90]"

text \<open>Line 294 (24 bytes).\<close>

definition summary_service_failover :: string where
  "summary_service_failover =
     [CHR 0xE6, CHR 0x9C, CHR 0x8D, CHR 0xE5, CHR 0x8A, CHR 0xA1,
      CHR 0xE5, CHR 0x88, CHR 0x87, CHR 0xE6, CHR 0x8D, CHR 0xA2,
      CHR 0xE6, CHR 0x89, CHR 0xA7, CHR 0xE8, CHR 0xA1, CHR 0x8C,
      CHR 0xE5, CHR 0xAE, CHR 0x8C, CHR 0xE6, CHR 0x88, CHR 0x90]"

text \<open>Line 298 (30 bytes).\<close>

definition summary_evacuation :: string where
  "summary_evacuation =
     [CHR 0xE7, CHR 0xB4, CHR 0xA7, CHR 0xE6, CHR 0x80, CHR 0xA5,
      CHR 0xE7, CHR 0x96, CHR 0x8F, CHR 0xE6, CHR 0x95, CHR 0xA3,
      CHR 0xE5, CHR 0x8D, CHR 0x8F, CHR 0xE8, CHR 0xAE, CHR 0xAE,
      CHR 0xE6, CHR 0x89, CHR 0xA7, CHR 0xE8, CHR 0xA1, CHR 0x8C,
      CHR 0xE5, CHR 0xAE, CHR 0x8C, CHR 0xE6, CHR 0x88, CHR 0x90]"

text \<open>Line 302 (24 bytes).\<close>

definition summary_backup_activate :: string where
  "summary_backup_activate =
     [CHR 0xE7, CHR 0xB4, CHR 0xA7, CHR 0xE6, CHR 0x80, CHR 0xA5,
      CHR 0xE5, CHR 0xA4, CHR 0x87, CHR 0xE4, CHR 0xBB, CHR 0xBD,
      CHR 0xE6, CHR 0xBF, CHR 0x80, CHR 0xE6, CHR 0xB4, CHR 0xBB,
      CHR 0xE5, CHR 0xAE, CHR 0x8C, CHR 0xE6, CHR 0x88, CHR 0x90]"

text \<open>Line 306 (30 bytes).\<close>

definition summary_partial_contain :: string where
  "summary_partial_contain =
     [CHR 0xE5, CHR 0xB1, CHR 0x80, CHR 0xE9, CHR 0x83, CHR 0xA8,
      CHR 0xE6, CHR 0x8E, CHR 0xA7, CHR 0xE5, CHR 0x88, CHR 0xB6,
      CHR 0xE6, CHR 0x8E, CHR 0xAA, CHR 0xE6, CHR 0x96, CHR 0xBD,
      CHR 0xE6, CHR 0x89, CHR 0xA7, CHR 0xE8, CHR 0xA1, CHR 0x8C,
      CHR 0xE5, CHR 0xAE, CHR 0x8C, CHR 0xE6, CHR 0x88, CHR 0x90]"

text \<open>Line 310 (30 bytes).\<close>

definition summary_full_recovery :: string where
  "summary_full_recovery =
     [CHR 0xE5, CHR 0x85, CHR 0xA8, CHR 0xE9, CHR 0x9D, CHR 0xA2,
      CHR 0xE6, CHR 0x81, CHR 0xA2, CHR 0xE5, CHR 0xA4, CHR 0x8D,
      CHR 0xE5, CHR 0xBA, CHR 0x8F, CHR 0xE5, CHR 0x88, CHR 0x97,
      CHR 0xE6, CHR 0x89, CHR 0xA7, CHR 0xE8, CHR 0xA1, CHR 0x8C,
      CHR 0xE5, CHR 0xAE, CHR 0x8C, CHR 0xE6, CHR 0x88, CHR 0x90]"

text \<open>Line 314 (18 bytes).\<close>

definition summary_unknown_type :: string where
  "summary_unknown_type =
     [CHR 0xE6, CHR 0x9C, CHR 0xAA, CHR 0xE7, CHR 0x9F, CHR 0xA5,
      CHR 0xE5, CHR 0x93, CHR 0x8D, CHR 0xE5, CHR 0xBA, CHR 0x94,
      CHR 0xE7, CHR 0xB1, CHR 0xBB, CHR 0xE5, CHR 0x9E, CHR 0x8B]"

text \<open>Line 340 (18 bytes).\<close>

definition emergency_trigger_event :: string where
  "emergency_trigger_event =
     [CHR 0xE6, CHR 0x89, CHR 0x8B, CHR 0xE5, CHR 0x8A, CHR 0xA8,
      CHR 0xE7, CHR 0xB4, CHR 0xA7, CHR 0xE6, CHR 0x80, CHR 0xA5,
      CHR 0xE8, CHR 0xA7, CHR 0xA6, CHR 0xE5, CHR 0x8F, CHR 0x91]"

section \<open>Sequence handlers\<close>

text \<open>
  \<open>execute_lockdown_sequence\<close>, lines 125 to 171. Four controller calls in a fixed order.
  Each of the first three assigns its own code to \<open>result\<close> when it fails; the fourth has no
  \<open>else\<close> branch. \<open>success_ops\<close> and \<open>total_ops\<close> are locals that reach only the closing
  \<open>printf\<close>.
\<close>

definition execute_lockdown_sequence ::
  "env \<Rightarrow> integrated_response_t \<Rightarrow> subsystem_state \<Rightarrow> int \<times> subsystem_state" where
  "execute_lockdown_sequence ev response s0 =
     (let result0 = (0::int);
          success0 = (0::32 word);
          total0 = (0::32 word);
          total1 = total0 + 1;
          s1 = emit (E_lockdown_physical_access (target_zones response) (duration response)) s0;
          ok1 = (lockdown_physical_access ev (target_zones response) (duration response) = 0);
          success1 = (if ok1 then success0 + 1 else success0);
          result1 = (if ok1 then result0 else - 1);
          total2 = total1 + 1;
          s2 = emit (E_isolate_network_segments (target_zones response) (severity response)) s1;
          ok2 = (isolate_network_segments ev (target_zones response) (severity response) = 0);
          success2 = (if ok2 then success1 + 1 else success1);
          result2 = (if ok2 then result1 else - 2);
          total3 = total2 + 1;
          s3 = emit (E_stop_non_critical_services (target_zones response)) s2;
          ok3 = (stop_non_critical_services ev (target_zones response) = 0);
          success3 = (if ok3 then success2 + 1 else success2);
          result3 = (if ok3 then result2 else - 3);
          total4 = total3 + 1;
          s4 = emit (E_enhance_surveillance (target_zones response)) s3;
          ok4 = (enhance_surveillance ev (target_zones response) = 0);
          success4 = (if ok4 then success3 + 1 else success3);
          s5 = emit (E_printf_lockdown_tally success4 total4) s4
      in (result3, s5))"

text \<open>
  \<open>execute_network_isolation\<close>, lines 173 to 204. The loop of lines 188 to 197 is
  \<open>zone_loop\<close>. The test \<open>target_zones & (1 << i)\<close> is taken on 32 bits, which is what the
  shift of the \<open>int\<close> constant \<open>1\<close> gives after its conversion to \<open>uint32_t\<close>.
\<close>

definition cmd_flush :: string where
  "cmd_flush = snprintf 256 ''iptables -F CASSIE_EMERGENCY''"

definition cmd_new_chain :: string where
  "cmd_new_chain = snprintf 256 ''iptables -N CASSIE_EMERGENCY''"

definition cmd_zone :: "nat \<Rightarrow> string" where
  "cmd_zone i =
     snprintf 256 (''iptables -A CASSIE_EMERGENCY -s 10.0.'' @ dec i @ ''.0/24 -j DROP'')"

definition cmd_activate :: string where
  "cmd_activate = ''iptables -I FORWARD -j CASSIE_EMERGENCY''"

function zone_loop ::
  "env \<Rightarrow> integrated_response_t \<Rightarrow> nat \<Rightarrow> int \<Rightarrow> subsystem_state \<Rightarrow> int \<times> subsystem_state" where
  "zone_loop ev response i result s =
     (if i < 32 then
        (if target_zones response AND push_bit i 1 \<noteq> 0 then
           zone_loop ev response (i + 1)
             (if fst (c_system ev (cmd_zone i) s) \<noteq> 0 then - 1 else result)
             (snd (c_system ev (cmd_zone i) s))
         else zone_loop ev response (i + 1) result s)
      else (result, s))"
  by pat_completeness auto
termination
  by (relation "measure (\<lambda>(ev, response, i, result, s). 32 - i)") auto

definition execute_network_isolation ::
  "env \<Rightarrow> integrated_response_t \<Rightarrow> subsystem_state \<Rightarrow> int \<times> subsystem_state" where
  "execute_network_isolation ev response s0 =
     (let result0 = (0::int);
          s1 = snd (c_system ev cmd_flush s0);
          s2 = snd (c_system ev cmd_new_chain s1);
          (result1, s3) = zone_loop ev response 0 result0 s2;
          s4 = snd (c_system ev cmd_activate s3)
      in (result1, s4))"

text \<open>
  \<open>execute_service_failover\<close>, lines 206 to 240. The loop body stops the primary, starts
  the backup and sleeps; a failed stop assigns \<open>-1\<close>, a failed start assigns \<open>-2\<close>.
\<close>

definition critical_services :: "string list" where
  "critical_services =
     [''cassie-core'', ''auth-service'', ''network-monitor'', ''database-service'']"

definition stop_cmd :: "string \<Rightarrow> string" where
  "stop_cmd svc = snprintf 128 (''systemctl stop '' @ svc)"

definition start_cmd :: "string \<Rightarrow> string" where
  "start_cmd svc = snprintf 128 (''systemctl start '' @ svc @ ''-backup'')"

fun failover_loop ::
  "env \<Rightarrow> string list \<Rightarrow> int \<Rightarrow> subsystem_state \<Rightarrow> int \<times> subsystem_state" where
  "failover_loop ev [] result s = (result, s)"
| "failover_loop ev (svc # rest) result s =
     (let (rv1, s1) = c_system ev (stop_cmd svc) s;
          result1 = (if rv1 = 0 then result else - 1);
          (rv2, s2) = c_system ev (start_cmd svc) s1;
          result2 = (if rv2 = 0 then result1 else - 2);
          s3 = emit (E_usleep 500000) s2
      in failover_loop ev rest result2 s3)"

definition execute_service_failover ::
  "env \<Rightarrow> integrated_response_t \<Rightarrow> subsystem_state \<Rightarrow> int \<times> subsystem_state" where
  "execute_service_failover ev response s = failover_loop ev critical_services 0 s"

text \<open>\<open>execute_evacuation_protocol\<close>, lines 242 to 258.\<close>

definition execute_evacuation_protocol ::
  "env \<Rightarrow> integrated_response_t \<Rightarrow> subsystem_state \<Rightarrow> int \<times> subsystem_state" where
  "execute_evacuation_protocol ev response s0 =
     (let result0 = (0::int);
          s1 = emit (E_unlock_evacuation_routes (target_zones response)) s0;
          result1 = (if unlock_evacuation_routes ev (target_zones response) \<noteq> 0
                     then - 1 else result0);
          s2 = emit (E_activate_evacuation_lights (target_zones response)) s1;
          s3 = emit (E_power_down_non_essential (target_zones response)) s2;
          s4 = emit E_enable_emergency_comms s3
      in (result1, s4))"

section \<open>Public API\<close>

text \<open>
  The \<open>switch\<close> of \<open>re_execute_integrated\<close>, lines 283 to 315: seven cases and the
  \<open>default\<close>. Each branch runs its handler and then copies its summary into the report.
\<close>

definition set_summary :: "string \<Rightarrow> subsystem_state \<Rightarrow> subsystem_state" where
  "set_summary str s = s\<lparr>last_report := (last_report s)\<lparr>status_summary := str\<rparr>\<rparr>"

definition dispatch_switch ::
  "env \<Rightarrow> integrated_response_t \<Rightarrow> subsystem_state \<Rightarrow> int \<times> subsystem_state" where
  "dispatch_switch ev response s =
     (if type response = RESPONSE_LOCKDOWN then
        (let (result, s1) = execute_lockdown_sequence ev response s
         in (result, set_summary summary_lockdown s1))
      else if type response = RESPONSE_NETWORK_ISOLATE then
        (let (result, s1) = execute_network_isolation ev response s
         in (result, set_summary summary_network_isolate s1))
      else if type response = RESPONSE_SERVICE_FAILOVER then
        (let (result, s1) = execute_service_failover ev response s
         in (result, set_summary summary_service_failover s1))
      else if type response = RESPONSE_EVACUATION then
        (let (result, s1) = execute_evacuation_protocol ev response s
         in (result, set_summary summary_evacuation s1))
      else if type response = RESPONSE_BACKUP_ACTIVATE then
        (let s1 = emit (E_activate_emergency_backups (severity response)) s;
             result = activate_emergency_backups ev (severity response)
         in (result, set_summary summary_backup_activate s1))
      else if type response = RESPONSE_PARTIAL_CONTAIN then
        (let s1 = emit E_execute_partial_containment s;
             result = execute_partial_containment ev response
         in (result, set_summary summary_partial_contain s1))
      else if type response = RESPONSE_FULL_RECOVERY then
        (let s1 = emit E_execute_recovery_sequence s;
             result = execute_recovery_sequence ev response
         in (result, set_summary summary_full_recovery s1))
      else (- 99, set_summary summary_unknown_type s))"

text \<open>
  \<open>re_execute_integrated\<close>, lines 262 to 326. The request pointer may be \<open>NULL\<close>, which is
  \<open>None\<close>. The report is written in place, in \<open>subsystem_state.last_report\<close>: cleared by
  \<open>memset\<close>, then filled field by field.
\<close>

definition re_execute_integrated ::
  "env \<Rightarrow> integrated_response_t option \<Rightarrow> subsystem_state \<Rightarrow> int \<times> subsystem_state" where
  "re_execute_integrated ev arg s =
     (case arg of
        None \<Rightarrow> (- 1, s)
      | Some response \<Rightarrow>
          if \<not> initialized s then (- 1, s)
          else
            (let s1 = emit E_pthread_mutex_lock s;
                 s2 = s1\<lparr>last_report := zero_report\<rparr>;
                 s3 = s2\<lparr>last_report := (last_report s2)\<lparr>response_id := timestamp response\<rparr>\<rparr>;
                 (t0, s4) = c_time ev s3;
                 s5 = s4\<lparr>last_report := (last_report s4)\<lparr>start_time := t0\<rparr>\<rparr>;
                 (result, s6) = dispatch_switch ev response s5;
                 (t1, s7) = c_time ev s6;
                 s8 = s7\<lparr>last_report := (last_report s7)\<lparr>end_time := t1\<rparr>\<rparr>;
                 s9 = s8\<lparr>last_report := (last_report s8)\<lparr>overall_result := result\<rparr>\<rparr>;
                 s10 = s9\<lparr>last_report := (last_report s9)\<lparr>sub_operations := 4\<rparr>\<rparr>;
                 s11 = emit E_pthread_mutex_unlock s10
             in (result, s11)))"

text \<open>
  \<open>re_emergency_sequence\<close>, lines 328 to 348. The flags are set, the request is built (the
  fields the initializer does not name are zero) and handed to \<open>pthread_create\<close>. What the
  new thread does with it is outside this sequential model; the event keeps the request as it
  is at the call.
\<close>

definition re_emergency_sequence ::
  "env \<Rightarrow> 8 word \<Rightarrow> subsystem_state \<Rightarrow> subsystem_state" where
  "re_emergency_sequence ev emergency_level s =
     (let s1 = s\<lparr>emergency_mode := True\<rparr>;
          s2 = s1\<lparr>current_level := emergency_level\<rparr>;
          (now, s3) = c_time ev s2;
          emergency_response =
            \<lparr> type = RESPONSE_LOCKDOWN, severity = 10, target_zones = 0xFFFFFFFF,
              duration = 3600, auth_level = AUTH_LEVEL_5,
              trigger_event = emergency_trigger_event, timestamp = now,
              retry_count = 0, timeout_seconds = 0 \<rparr>;
          s4 = emit (E_pthread_create emergency_response) s3;
          s5 = emit E_pthread_detach s4
      in s5)"

text \<open>\<open>re_init_integrated\<close>, lines 350 to 375.\<close>

definition re_init_integrated :: "env \<Rightarrow> subsystem_state \<Rightarrow> int \<times> subsystem_state" where
  "re_init_integrated ev s =
     (if initialized s then (0, s)
      else
        (let s1 = emit E_pthread_mutex_init s in
         if pthread_mutex_init ev \<noteq> 0 then (- 1, s1)
         else
           (let s2 = emit E_check_hardware_readiness s1 in
            if \<not> check_hardware_readiness ev then (- 2, s2)
            else
              (let s3 = emit E_init_network_subsystem s2 in
               if init_network_subsystem ev \<noteq> 0 then (- 3, s3)
               else
                 (let s4 = emit E_init_access_control s3 in
                  if init_access_control ev \<noteq> 0 then (- 4, s4)
                  else
                    (0, s4\<lparr>initialized := True, emergency_mode := False,
                            current_level := 0\<rparr>))))))"

text \<open>\<open>re_get_last_report\<close>, lines 377 to 379: the address of the live report, no lock.\<close>

definition re_get_last_report :: "subsystem_state \<Rightarrow> execution_report_t" where
  "re_get_last_report s = last_report s"

text \<open>\<open>re_cleanup_resources\<close>, lines 385 to 397.\<close>

definition re_cleanup_resources :: "subsystem_state \<Rightarrow> subsystem_state" where
  "re_cleanup_resources s =
     (if initialized s then
        (let s1 = emit E_restore_normal_access s;
             s2 = emit E_cleanup_network_rules s1;
             s3 = emit E_stop_emergency_services s2;
             s4 = emit E_pthread_mutex_destroy s3
         in s4\<lparr>initialized := False\<rparr>)
      else s)"

section \<open>Auxiliary notions for the statements\<close>

text \<open>
  A handler's steps, each with whether it succeeded and the code it assigns when it fails
  (\<open>None\<close> for a step that assigns none). \<open>last_failure_code\<close> is the code of the last failed
  step that has one, and 0 when there is none; \<open>first_failure_code\<close> is the same for the
  first such step.
\<close>

fun last_failure_code :: "(bool \<times> int option) list \<Rightarrow> int \<Rightarrow> int" where
  "last_failure_code [] acc = acc"
| "last_failure_code ((ok, code) # steps) acc =
     last_failure_code steps (case code of None \<Rightarrow> acc | Some c \<Rightarrow> if ok then acc else c)"

fun first_failure_code :: "(bool \<times> int option) list \<Rightarrow> int" where
  "first_failure_code [] = 0"
| "first_failure_code ((ok, code) # steps) =
     (case code of
        None \<Rightarrow> first_failure_code steps
      | Some c \<Rightarrow> if ok then first_failure_code steps else c)"

text \<open>The steps of a lockdown, in order, as the environment answers them.\<close>

definition lockdown_steps :: "env \<Rightarrow> integrated_response_t \<Rightarrow> (bool \<times> int option) list" where
  "lockdown_steps ev response =
     [(lockdown_physical_access ev (target_zones response) (duration response) = 0, Some (- 1)),
      (isolate_network_segments ev (target_zones response) (severity response) = 0, Some (- 2)),
      (stop_non_critical_services ev (target_zones response) = 0, Some (- 3)),
      (enhance_surveillance ev (target_zones response) = 0, None)]"

text \<open>
  The steps of a failover that starts when \<open>n\<close> calls are logged: the service at position
  \<open>k\<close> of the list is stopped by call \<open>n + 3 * k\<close> and its backup is started by the call after.
\<close>

fun failover_steps :: "env \<Rightarrow> nat \<Rightarrow> string list \<Rightarrow> (bool \<times> int option) list" where
  "failover_steps ev n [] = []"
| "failover_steps ev n (svc # rest) =
     (system_rv ev n = 0, Some (- 1)) # (system_rv ev (n + 1) = 0, Some (- 2))
       # failover_steps ev (n + 3) rest"

text \<open>The zones of a mask, in increasing order.\<close>

definition zones_of :: "32 word \<Rightarrow> nat list" where
  "zones_of m = filter (\<lambda>i. bit m i) [0..<32]"

text \<open>The events a call added to the trace.\<close>

definition new_events :: "subsystem_state \<Rightarrow> subsystem_state \<Rightarrow> event list" where
  "new_events s s' = drop (length (trace s)) (trace s')"

text \<open>
  The steps of a network isolation whose first per-zone call is call number \<open>n\<close>: one step
  for each zone of the list, all with the code \<open>-1\<close>.
\<close>

fun zone_steps :: "env \<Rightarrow> nat \<Rightarrow> nat list \<Rightarrow> (bool \<times> int option) list" where
  "zone_steps ev n [] = []"
| "zone_steps ev n (z # zs) = (system_rv ev n = 0, Some (- 1)) # zone_steps ev (n + 1) zs"

text \<open>
  The steps of an evacuation: the unlock, which can fail with \<open>-1\<close>, and the three calls
  that return nothing.
\<close>

definition evacuation_steps :: "env \<Rightarrow> integrated_response_t \<Rightarrow> (bool \<times> int option) list" where
  "evacuation_steps ev response =
     [(unlock_evacuation_routes ev (target_zones response) = 0, Some (- 1)),
      (True, None), (True, None), (True, None)]"

section \<open>Concrete environments, states and requests\<close>

definition clock0 :: "nat \<Rightarrow> 64 word" where
  "clock0 k = 1700000000 + of_nat k"

definition shell_ok :: "nat \<Rightarrow> int" where
  "shell_ok k = 0"

definition shell_fails :: "nat \<Rightarrow> int" where
  "shell_fails k = 1"

text \<open>The stubs of the source, with a shell whose commands all succeed.\<close>

definition quiet_env :: env where
  "quiet_env = stubs shell_ok clock0"

text \<open>The stubs of the source, with a shell whose commands all fail.\<close>

definition failing_shell_env :: env where
  "failing_shell_env = stubs shell_fails clock0"

definition refuse_access :: "32 word \<Rightarrow> 32 word \<Rightarrow> int" where
  "refuse_access z d = 1"

definition refuse_network :: "32 word \<Rightarrow> 8 word \<Rightarrow> int" where
  "refuse_network z v = 1"

text \<open>An access controller that fails, all others as the stubs.\<close>

definition access_fails_env :: env where
  "access_fails_env = quiet_env\<lparr>lockdown_physical_access := refuse_access\<rparr>"

text \<open>Access and network controllers that fail, all others as the stubs.\<close>

definition access_and_network_fail_env :: env where
  "access_and_network_fail_env =
     access_fails_env\<lparr>isolate_network_segments := refuse_network\<rparr>"

definition refuse_zones :: "32 word \<Rightarrow> int" where
  "refuse_zones z = 1"

text \<open>An evacuation-route unlock that fails, all others as the stubs.\<close>

definition unlock_fails_env :: env where
  "unlock_fails_env = quiet_env\<lparr>unlock_evacuation_routes := refuse_zones\<rparr>"

text \<open>The state after a successful \<open>re_init_integrated\<close> on the initial state.\<close>

definition ready_state :: subsystem_state where
  "ready_state = snd (re_init_integrated quiet_env initial_state)"

definition request_of :: "int \<Rightarrow> 32 word \<Rightarrow> integrated_response_t" where
  "request_of t zones =
     \<lparr> type = t, severity = 7, target_zones = zones, duration = 600, auth_level = 3,
       trigger_event = ''drill'', timestamp = 1699999999, retry_count = 0,
       timeout_seconds = 30 \<rparr>"

section \<open>Basic facts\<close>

declare zone_loop.simps [simp del]
declare dec.simps [simp del]

lemmas response_type_defs =
  RESPONSE_LOCKDOWN_def RESPONSE_NETWORK_ISOLATE_def RESPONSE_SERVICE_FAILOVER_def
  RESPONSE_EVACUATION_def RESPONSE_BACKUP_ACTIVATE_def RESPONSE_COMMS_PRIORITY_def
  RESPONSE_PARTIAL_CONTAIN_def RESPONSE_FULL_RECOVERY_def

lemma emit_fields [simp]:
  "trace (emit e s) = trace s @ [e]"
  "last_report (emit e s) = last_report s"
  "initialized (emit e s) = initialized s"
  "emergency_mode (emit e s) = emergency_mode s"
  "current_level (emit e s) = current_level s"
  by (simp_all add: emit_def)

lemma c_system_fields [simp]:
  "fst (c_system ev cmd s) = system_rv ev (length (trace s))"
  "snd (c_system ev cmd s) = emit (E_system cmd) s"
  by (simp_all add: c_system_def)

lemma c_time_fields [simp]:
  "fst (c_time ev s) = time_rv ev (length (trace s))"
  "snd (c_time ev s) = emit E_time s"
  by (simp_all add: c_time_def)

lemma set_summary_fields [simp]:
  "trace (set_summary str s) = trace s"
  "initialized (set_summary str s) = initialized s"
  "emergency_mode (set_summary str s) = emergency_mode s"
  "current_level (set_summary str s) = current_level s"
  "last_report (set_summary str s) = (last_report s)\<lparr>status_summary := str\<rparr>"
  by (simp_all add: set_summary_def)

lemma new_events_append [simp]: "trace s' = trace s @ es \<Longrightarrow> new_events s s' = es"
  by (simp add: new_events_def)

lemma new_events_self [simp]: "new_events s s = []"
  by (simp add: new_events_def)

lemma ready_state_eq:
  "ready_state =
     \<lparr> initialized = True, emergency_mode = False, current_level = 0,
       last_report = zero_report,
       trace = [E_pthread_mutex_init, E_check_hardware_readiness, E_init_network_subsystem,
                E_init_access_control] \<rparr>"
  by (simp add: ready_state_def re_init_integrated_def quiet_env_def stubs_def
      initial_state_def emit_def Let_def)

subsection \<open>The lockdown sequence\<close>

lemma lockdown_trace:
  "trace (snd (execute_lockdown_sequence ev r s)) = trace s @
     [E_lockdown_physical_access (target_zones r) (duration r),
      E_isolate_network_segments (target_zones r) (severity r),
      E_stop_non_critical_services (target_zones r),
      E_enhance_surveillance (target_zones r),
      E_printf_lockdown_tally (of_nat (length (filter fst (lockdown_steps ev r)))) 4]"
  by (simp add: execute_lockdown_sequence_def Let_def lockdown_steps_def)

lemma lockdown_rest:
  "last_report (snd (execute_lockdown_sequence ev r s)) = last_report s"
  "initialized (snd (execute_lockdown_sequence ev r s)) = initialized s"
  "emergency_mode (snd (execute_lockdown_sequence ev r s)) = emergency_mode s"
  "current_level (snd (execute_lockdown_sequence ev r s)) = current_level s"
  by (simp_all add: execute_lockdown_sequence_def Let_def)

lemma lockdown_result:
  "fst (execute_lockdown_sequence ev r s) = last_failure_code (lockdown_steps ev r) 0"
  by (simp add: execute_lockdown_sequence_def Let_def lockdown_steps_def)

subsection \<open>The zone loop and the network isolation\<close>

lemma zone_test: "(m AND push_bit i 1 \<noteq> 0) = bit (m::32 word) i"
  by (simp add: and_exp_eq_0_iff_not_bit)

lemma upt_step: "i < n \<Longrightarrow> [i..<n] = i # [Suc i..<n]"
  by (simp add: upt_conv_Cons)

lemma zone_loop_unfold:
  "i < 32 \<Longrightarrow> bit (target_zones r) i \<Longrightarrow>
     zone_loop ev r i res s =
       zone_loop ev r (Suc i) (if system_rv ev (length (trace s)) \<noteq> 0 then - 1 else res)
         (emit (E_system (cmd_zone i)) s)"
  "i < 32 \<Longrightarrow> \<not> bit (target_zones r) i \<Longrightarrow>
     zone_loop ev r i res s = zone_loop ev r (Suc i) res s"
  "\<not> i < 32 \<Longrightarrow> zone_loop ev r i res s = (res, s)"
  by (subst zone_loop.simps, simp add: zone_test and_exp_eq_0_iff_not_bit)+

lemma zone_loop_trace:
  "trace (snd (zone_loop ev r i res s)) =
     trace s @ map (\<lambda>j. E_system (cmd_zone j)) (filter (\<lambda>j. bit (target_zones r) j) [i..<32])"
proof (induction ev r i res s rule: zone_loop.induct)
  case (1 ev r i res s)
  show ?case
  proof (cases "i < 32")
    case False
    then show ?thesis by (simp add: zone_loop_unfold)
  next
    case in_range: True
    show ?thesis
    proof (cases "bit (target_zones r) i")
      case True
      with in_range 1(1) show ?thesis
        by (simp add: zone_loop_unfold zone_test and_exp_eq_0_iff_not_bit upt_step [of i 32])
    next
      case False
      with in_range 1(2) show ?thesis
        by (simp add: zone_loop_unfold zone_test and_exp_eq_0_iff_not_bit upt_step [of i 32])
    qed
  qed
qed

lemma zone_loop_rest:
  "last_report (snd (zone_loop ev r i res s)) = last_report s \<and>
   initialized (snd (zone_loop ev r i res s)) = initialized s \<and>
   emergency_mode (snd (zone_loop ev r i res s)) = emergency_mode s \<and>
   current_level (snd (zone_loop ev r i res s)) = current_level s"
proof (induction ev r i res s rule: zone_loop.induct)
  case (1 ev r i res s)
  show ?case
  proof (cases "i < 32")
    case False
    then show ?thesis by (simp add: zone_loop_unfold)
  next
    case in_range: True
    show ?thesis
    proof (cases "bit (target_zones r) i")
      case True
      with in_range 1(1) show ?thesis
        by (simp add: zone_loop_unfold zone_test and_exp_eq_0_iff_not_bit)
    next
      case False
      with in_range 1(2) show ?thesis
        by (simp add: zone_loop_unfold zone_test and_exp_eq_0_iff_not_bit)
    qed
  qed
qed

lemma zone_loop_result:
  "fst (zone_loop ev r i res s) =
     last_failure_code
       (zone_steps ev (length (trace s)) (filter (\<lambda>j. bit (target_zones r) j) [i..<32])) res"
proof (induction ev r i res s rule: zone_loop.induct)
  case (1 ev r i res s)
  show ?case
  proof (cases "i < 32")
    case False
    then show ?thesis by (simp add: zone_loop_unfold)
  next
    case in_range: True
    show ?thesis
    proof (cases "bit (target_zones r) i")
      case True
      with in_range 1(1) show ?thesis
        by (simp add: zone_loop_unfold zone_test and_exp_eq_0_iff_not_bit upt_step [of i 32])
    next
      case False
      with in_range 1(2) show ?thesis
        by (simp add: zone_loop_unfold zone_test and_exp_eq_0_iff_not_bit upt_step [of i 32])
    qed
  qed
qed

lemma netiso_trace:
  "trace (snd (execute_network_isolation ev r s)) = trace s @
     E_system cmd_flush # E_system cmd_new_chain #
     map (\<lambda>i. E_system (cmd_zone i)) (zones_of (target_zones r)) @ [E_system cmd_activate]"
  by (simp add: execute_network_isolation_def Let_def split_def zone_loop_trace zones_of_def)

lemma netiso_rest:
  "last_report (snd (execute_network_isolation ev r s)) = last_report s \<and>
   initialized (snd (execute_network_isolation ev r s)) = initialized s \<and>
   emergency_mode (snd (execute_network_isolation ev r s)) = emergency_mode s \<and>
   current_level (snd (execute_network_isolation ev r s)) = current_level s"
  by (simp add: execute_network_isolation_def Let_def split_def zone_loop_rest)

lemma netiso_result:
  "fst (execute_network_isolation ev r s) =
     last_failure_code (zone_steps ev (length (trace s) + 2) (zones_of (target_zones r))) 0"
  by (simp add: execute_network_isolation_def Let_def split_def zone_loop_result zones_of_def)

lemma set_zones_of: "set (zones_of m) = {i. bit m i}"
  by (auto simp: zones_of_def dest: bit_imp_le_length)

lemma length_zones_of: "length (zones_of m) = card {i. bit m i}"
proof -
  have "distinct (zones_of m)"
    by (simp add: zones_of_def)
  then have "card (set (zones_of m)) = length (zones_of m)"
    by (rule distinct_card)
  then show ?thesis
    by (simp add: set_zones_of)
qed

lemma zones_of_example: "zones_of 0x221 = [0, 5, 9]"
  by code_simp

lemma commands_distinct:
  "distinct (cmd_flush # cmd_new_chain # cmd_activate # map cmd_zone [0..<32])"
  by code_simp

subsection \<open>The failover loop\<close>

lemma failover_loop_trace:
  "trace (snd (failover_loop ev svcs res s)) =
     trace s @ concat (map (\<lambda>svc. [E_system (stop_cmd svc), E_system (start_cmd svc),
                                    E_usleep 500000]) svcs)"
  by (induction svcs arbitrary: res s) (simp_all add: c_system_def split_def Let_def)

lemma failover_loop_rest:
  "last_report (snd (failover_loop ev svcs res s)) = last_report s \<and>
   initialized (snd (failover_loop ev svcs res s)) = initialized s \<and>
   emergency_mode (snd (failover_loop ev svcs res s)) = emergency_mode s \<and>
   current_level (snd (failover_loop ev svcs res s)) = current_level s"
  by (induction svcs arbitrary: res s) (simp_all add: c_system_def split_def Let_def)

lemma failover_loop_result:
  "fst (failover_loop ev svcs res s) =
     last_failure_code (failover_steps ev (length (trace s)) svcs) res"
proof (induction svcs arbitrary: res s)
  case Nil
  show ?case by simp
next
  case (Cons svc rest)
  have three: "length (trace s) + 3 = Suc (Suc (Suc (length (trace s))))"
    by simp
  show ?case
    by (simp add: c_system_def split_def Let_def Cons.IH three)
qed

lemma failover_result:
  "fst (execute_service_failover ev r s) =
     last_failure_code (failover_steps ev (length (trace s)) critical_services) 0"
  by (simp add: execute_service_failover_def failover_loop_result)

subsection \<open>The evacuation protocol\<close>

lemma evac_trace:
  "trace (snd (execute_evacuation_protocol ev r s)) = trace s @
     [E_unlock_evacuation_routes (target_zones r), E_activate_evacuation_lights (target_zones r),
      E_power_down_non_essential (target_zones r), E_enable_emergency_comms]"
  by (simp add: execute_evacuation_protocol_def Let_def)

lemma evac_rest:
  "last_report (snd (execute_evacuation_protocol ev r s)) = last_report s \<and>
   initialized (snd (execute_evacuation_protocol ev r s)) = initialized s \<and>
   emergency_mode (snd (execute_evacuation_protocol ev r s)) = emergency_mode s \<and>
   current_level (snd (execute_evacuation_protocol ev r s)) = current_level s"
  by (simp add: execute_evacuation_protocol_def Let_def)

lemma evac_result:
  "fst (execute_evacuation_protocol ev r s) = last_failure_code (evacuation_steps ev r) 0"
  by (simp add: execute_evacuation_protocol_def evacuation_steps_def Let_def)

subsection \<open>The dispatcher\<close>

lemma last_failure_code_all_ok: "list_all fst steps \<Longrightarrow> last_failure_code steps acc = acc"
  by (induction steps arbitrary: acc) (auto split: option.splits)

lemma switch_counts:
  "success_count (last_report (snd (dispatch_switch ev r s))) = success_count (last_report s) \<and>
   failed_count (last_report (snd (dispatch_switch ev r s))) = failed_count (last_report s) \<and>
   warning_count (last_report (snd (dispatch_switch ev r s))) = warning_count (last_report s)"
  by (simp add: dispatch_switch_def split_def Let_def lockdown_rest netiso_rest evac_rest
      failover_loop_rest execute_service_failover_def)

lemma switch_default:
  "type r = RESPONSE_COMMS_PRIORITY \<or> type r < RESPONSE_LOCKDOWN
     \<or> RESPONSE_FULL_RECOVERY < type r \<Longrightarrow>
   dispatch_switch ev r s = (- 99, set_summary summary_unknown_type s)"
  by (elim disjE; simp add: dispatch_switch_def response_type_defs)

lemma exec_default:
  "initialized s \<Longrightarrow>
   type r = RESPONSE_COMMS_PRIORITY \<or> type r < RESPONSE_LOCKDOWN
     \<or> RESPONSE_FULL_RECOVERY < type r \<Longrightarrow>
   re_execute_integrated ev (Some r) s =
     (- 99,
      emit E_pthread_mutex_unlock
        ((emit E_time (emit E_time (emit E_pthread_mutex_lock s)))
           \<lparr>last_report := zero_report
              \<lparr>response_id := timestamp r,
               start_time := time_rv ev (Suc (length (trace s))),
               status_summary := summary_unknown_type,
               end_time := time_rv ev (Suc (Suc (length (trace s)))),
               overall_result := - 99,
               sub_operations := 4\<rparr>\<rparr>))"
  by (simp add: re_execute_integrated_def switch_default Let_def split_def emit_def)

section \<open>The claims\<close>

text \<open>
  Claim C1, as amended. Every sequence handler returns the code of the LAST failed step
  among the steps that have a failure code, and 0 when no step fails. In a lockdown the codes
  are \<open>-1\<close> (access), \<open>-2\<close> (network) and \<open>-3\<close> (service stop). In a failover a
  failed stop has the code \<open>-1\<close> and a failed backup start \<open>-2\<close>, whatever the service.
  In a network isolation every zone rule has the code \<open>-1\<close>, and in an evacuation the
  unlock has the code \<open>-1\<close>.
\<close>

theorem handlers_return_last_failure_code:
  "fst (execute_lockdown_sequence ev r s) = last_failure_code (lockdown_steps ev r) 0 \<and>
   fst (execute_lockdown_sequence ev r s) =
     (if stop_non_critical_services ev (target_zones r) \<noteq> 0 then - 3
      else if isolate_network_segments ev (target_zones r) (severity r) \<noteq> 0 then - 2
      else if lockdown_physical_access ev (target_zones r) (duration r) \<noteq> 0 then - 1
      else 0) \<and>
   fst (execute_service_failover ev r s) =
     last_failure_code (failover_steps ev (length (trace s)) critical_services) 0 \<and>
   fst (execute_network_isolation ev r s) =
     last_failure_code (zone_steps ev (length (trace s) + 2) (zones_of (target_zones r))) 0 \<and>
   fst (execute_evacuation_protocol ev r s) = last_failure_code (evacuation_steps ev r) 0 \<and>
   (list_all fst (lockdown_steps ev r) \<longrightarrow> fst (execute_lockdown_sequence ev r s) = 0) \<and>
   (list_all fst (failover_steps ev (length (trace s)) critical_services) \<longrightarrow>
      fst (execute_service_failover ev r s) = 0) \<and>
   (list_all fst (zone_steps ev (length (trace s) + 2) (zones_of (target_zones r))) \<longrightarrow>
      fst (execute_network_isolation ev r s) = 0) \<and>
   (list_all fst (evacuation_steps ev r) \<longrightarrow> fst (execute_evacuation_protocol ev r s) = 0)"
proof -
  have lock_explicit: "fst (execute_lockdown_sequence ev r s) =
     (if stop_non_critical_services ev (target_zones r) \<noteq> 0 then - 3
      else if isolate_network_segments ev (target_zones r) (severity r) \<noteq> 0 then - 2
      else if lockdown_physical_access ev (target_zones r) (duration r) \<noteq> 0 then - 1
      else 0)"
    by (simp add: lockdown_result lockdown_steps_def)
  have lock_ok: "list_all fst (lockdown_steps ev r) \<longrightarrow>
      fst (execute_lockdown_sequence ev r s) = 0"
    by (simp add: lockdown_result last_failure_code_all_ok)
  have failover_ok: "list_all fst (failover_steps ev (length (trace s)) critical_services) \<longrightarrow>
      fst (execute_service_failover ev r s) = 0"
    by (simp add: failover_result last_failure_code_all_ok)
  have netiso_ok:
    "list_all fst (zone_steps ev (length (trace s) + 2) (zones_of (target_zones r))) \<longrightarrow>
      fst (execute_network_isolation ev r s) = 0"
    by (simp add: netiso_result last_failure_code_all_ok)
  have evac_ok: "list_all fst (evacuation_steps ev r) \<longrightarrow>
      fst (execute_evacuation_protocol ev r s) = 0"
    by (simp add: evac_result last_failure_code_all_ok)
  show ?thesis
    by (intro conjI lockdown_result lock_explicit failover_result netiso_result evac_result
        lock_ok failover_ok netiso_ok evac_ok)
qed

text \<open>
  The amended claim at concrete inputs: with the stubs of the source every lockdown step
  succeeds and the handler returns 0; with a failing access controller it returns \<open>-1\<close>.
\<close>

theorem handlers_return_last_failure_code_witness:
  "list_all fst (lockdown_steps quiet_env (request_of RESPONSE_LOCKDOWN 0xFFFFFFFF)) \<and>
   fst (execute_lockdown_sequence quiet_env
          (request_of RESPONSE_LOCKDOWN 0xFFFFFFFF) ready_state) = 0 \<and>
   fst (execute_lockdown_sequence access_fails_env
          (request_of RESPONSE_LOCKDOWN 0xFFFFFFFF) ready_state) = - 1"
  using handlers_return_last_failure_code
      [of quiet_env "request_of RESPONSE_LOCKDOWN 0xFFFFFFFF" ready_state]
    handlers_return_last_failure_code
      [of access_fails_env "request_of RESPONSE_LOCKDOWN 0xFFFFFFFF" ready_state]
  by (simp add: lockdown_steps_def quiet_env_def access_fails_env_def stubs_def
      refuse_access_def)

text \<open>
  Claim C1 as stated fails. When every shell command of a failover fails, the first failed
  step is the stop of the first service, whose code is \<open>-1\<close>, and the handler returns \<open>-2\<close>.
  When the access and the network controllers of a lockdown both fail, the first failed step
  has the code \<open>-1\<close> and the handler returns \<open>-2\<close>.
\<close>

theorem first_failure_wins_counterexample:
  "fst (execute_service_failover failing_shell_env
          (request_of RESPONSE_SERVICE_FAILOVER 0) ready_state) = - 2 \<and>
   first_failure_code (failover_steps failing_shell_env (length (trace ready_state))
          critical_services) = - 1 \<and>
   fst (execute_lockdown_sequence access_and_network_fail_env
          (request_of RESPONSE_LOCKDOWN 0xFFFFFFFF) ready_state) = - 2 \<and>
   first_failure_code (lockdown_steps access_and_network_fail_env
          (request_of RESPONSE_LOCKDOWN 0xFFFFFFFF)) = - 1"
proof -
  have a: "fst (execute_service_failover failing_shell_env
          (request_of RESPONSE_SERVICE_FAILOVER 0) ready_state) = - 2"
    by (simp add: failover_result critical_services_def failing_shell_env_def stubs_def
        shell_fails_def)
  have b: "first_failure_code (failover_steps failing_shell_env (length (trace ready_state))
          critical_services) = - 1"
    by (simp add: critical_services_def failing_shell_env_def stubs_def shell_fails_def)
  have c: "fst (execute_lockdown_sequence access_and_network_fail_env
          (request_of RESPONSE_LOCKDOWN 0xFFFFFFFF) ready_state) = - 2"
    by (simp add: lockdown_result lockdown_steps_def access_and_network_fail_env_def
        access_fails_env_def quiet_env_def stubs_def refuse_access_def refuse_network_def)
  have d: "first_failure_code (lockdown_steps access_and_network_fail_env
          (request_of RESPONSE_LOCKDOWN 0xFFFFFFFF)) = - 1"
    by (simp add: lockdown_steps_def access_and_network_fail_env_def
        access_fails_env_def quiet_env_def stubs_def refuse_access_def refuse_network_def)
  from a b c d show ?thesis by simp
qed

text \<open>
  Claim C2, evaluated on the code. An initialized system, with the stubs of the source,
  dispatches a lockdown of all zones. The handler's own tally (the closing \<open>printf\<close>) is 4
  of 4 and \<open>overall_result\<close> is 0, but the published \<open>success_count\<close> is 0, not 4. With
  a failing access controller the tally is 3 of 4 and \<open>overall_result\<close> is \<open>-1\<close>, the code
  of the access step, but \<open>success_count\<close> is again 0, not 3.
\<close>

theorem lockdown_report_success_count:
  "overall_result (re_get_last_report (snd (re_execute_integrated quiet_env
      (Some (request_of RESPONSE_LOCKDOWN 0xFFFFFFFF)) ready_state))) = 0 \<and>
   E_printf_lockdown_tally 4 4 \<in> set (trace (snd (re_execute_integrated quiet_env
      (Some (request_of RESPONSE_LOCKDOWN 0xFFFFFFFF)) ready_state))) \<and>
   success_count (re_get_last_report (snd (re_execute_integrated quiet_env
      (Some (request_of RESPONSE_LOCKDOWN 0xFFFFFFFF)) ready_state))) = 0 \<and>
   overall_result (re_get_last_report (snd (re_execute_integrated access_fails_env
      (Some (request_of RESPONSE_LOCKDOWN 0xFFFFFFFF)) ready_state))) = - 1 \<and>
   E_printf_lockdown_tally 3 4 \<in> set (trace (snd (re_execute_integrated access_fails_env
      (Some (request_of RESPONSE_LOCKDOWN 0xFFFFFFFF)) ready_state))) \<and>
   success_count (re_get_last_report (snd (re_execute_integrated access_fails_env
      (Some (request_of RESPONSE_LOCKDOWN 0xFFFFFFFF)) ready_state))) = 0"
proof -
  have t: "type (request_of RESPONSE_LOCKDOWN 0xFFFFFFFF) = RESPONSE_LOCKDOWN"
    by (simp add: request_of_def)
  have i: "initialized ready_state"
    by (simp add: ready_state_eq)
  have q: "length (filter fst (lockdown_steps quiet_env
      (request_of RESPONSE_LOCKDOWN 0xFFFFFFFF))) = 4"
    by (simp add: lockdown_steps_def quiet_env_def stubs_def)
  have a: "length (filter fst (lockdown_steps access_fails_env
      (request_of RESPONSE_LOCKDOWN 0xFFFFFFFF))) = 3"
    by (simp add: lockdown_steps_def access_fails_env_def quiet_env_def stubs_def
        refuse_access_def)
  have q0: "last_failure_code (lockdown_steps quiet_env
      (request_of RESPONSE_LOCKDOWN 0xFFFFFFFF)) 0 = 0"
    by (simp add: lockdown_steps_def quiet_env_def stubs_def)
  have a0: "last_failure_code (lockdown_steps access_fails_env
      (request_of RESPONSE_LOCKDOWN 0xFFFFFFFF)) 0 = - 1"
    by (simp add: lockdown_steps_def access_fails_env_def quiet_env_def stubs_def
        refuse_access_def)
  show ?thesis
    by (simp add: re_execute_integrated_def re_get_last_report_def dispatch_switch_def
        split_def Let_def t i lockdown_trace lockdown_rest lockdown_result q a q0 a0
        zero_report_def)
qed

text \<open>
  Claim C4. A dispatch with an absent request, or on a state that is not initialized, returns
  \<open>-1\<close> at once. The whole state is unchanged: the last report is the one that was there,
  and nothing was logged, so no lock was taken.
\<close>

theorem dispatch_rejected_leaves_state:
  "arg = None \<or> \<not> initialized s \<Longrightarrow>
     re_execute_integrated ev arg s = (- 1, s) \<and>
     fst (re_execute_integrated ev arg s) = RESPONSE_ERROR_INIT_FAILED \<and>
     re_get_last_report (snd (re_execute_integrated ev arg s)) = re_get_last_report s \<and>
     new_events s (snd (re_execute_integrated ev arg s)) = []"
  by (auto simp: re_execute_integrated_def RESPONSE_ERROR_INIT_FAILED_def split: option.splits)

theorem dispatch_rejected_leaves_state_witness:
  "\<not> initialized initial_state \<and>
   re_execute_integrated quiet_env (Some (request_of RESPONSE_LOCKDOWN 0xFFFFFFFF))
     initial_state = (- 1, initial_state) \<and>
   re_execute_integrated quiet_env None ready_state = (- 1, ready_state)"
  using dispatch_rejected_leaves_state
      [of "Some (request_of RESPONSE_LOCKDOWN 0xFFFFFFFF)" initial_state quiet_env]
    dispatch_rejected_leaves_state [of None ready_state quiet_env]
  by (simp add: initial_state_def)

text \<open>
  Claim C5. A network isolation issues, after the two commands that rebuild the rule chain,
  one per-zone command for each set bit of \<open>target_zones\<close>, in increasing zone order, and
  then the activation command once. The commands do not depend on what any call returned.
  The number of per-zone commands is the number of set bits, and the commands of the 32
  zones differ from each other and from the three fixed ones.
\<close>

theorem network_isolation_calls:
  "new_events s (snd (execute_network_isolation ev r s)) =
     E_system cmd_flush # E_system cmd_new_chain #
     map (\<lambda>i. E_system (cmd_zone i)) (zones_of (target_zones r)) @ [E_system cmd_activate] \<and>
   length (zones_of (target_zones r)) = card {i. bit (target_zones r) i} \<and>
   distinct (cmd_flush # cmd_new_chain # cmd_activate # map cmd_zone [0..<32])"
  by (simp only: netiso_trace new_events_append length_zones_of commands_distinct simp_thms)

text \<open>Zones 0, 5 and 9, with a shell whose every command fails: three per-zone calls.\<close>

theorem network_isolation_calls_witness:
  "new_events ready_state
     (snd (execute_network_isolation failing_shell_env
        (request_of RESPONSE_NETWORK_ISOLATE 0x221) ready_state)) =
     [E_system ''iptables -F CASSIE_EMERGENCY'',
      E_system ''iptables -N CASSIE_EMERGENCY'',
      E_system ''iptables -A CASSIE_EMERGENCY -s 10.0.0.0/24 -j DROP'',
      E_system ''iptables -A CASSIE_EMERGENCY -s 10.0.5.0/24 -j DROP'',
      E_system ''iptables -A CASSIE_EMERGENCY -s 10.0.9.0/24 -j DROP'',
      E_system ''iptables -I FORWARD -j CASSIE_EMERGENCY'']"
proof -
  have "new_events ready_state
     (snd (execute_network_isolation failing_shell_env
        (request_of RESPONSE_NETWORK_ISOLATE 0x221) ready_state)) =
     [E_system cmd_flush, E_system cmd_new_chain, E_system (cmd_zone 0),
      E_system (cmd_zone 5), E_system (cmd_zone 9), E_system cmd_activate]"
    using network_isolation_calls
      [of ready_state failing_shell_env "request_of RESPONSE_NETWORK_ISOLATE 0x221",
        THEN conjunct1]
    by (simp add: request_of_def zones_of_example)
  then show ?thesis
    by (simp add: cmd_flush_def cmd_new_chain_def cmd_zone_def cmd_activate_def snprintf_def
        dec.simps digit_def)
qed

text \<open>
  Claim C6. \<open>re_emergency_sequence\<close> sets \<open>emergency_mode\<close> and stores the level, reads the
  clock, and hands to \<open>pthread_create\<close> a lockdown request with severity 10, all 32 zones,
  3600 seconds, authorization level 5, the fixed trigger text and the time just read. It
  touches neither \<open>initialized\<close> nor the last report.
\<close>

theorem emergency_sequence_request:
  "emergency_mode (re_emergency_sequence ev level s) = True \<and>
   current_level (re_emergency_sequence ev level s) = level \<and>
   initialized (re_emergency_sequence ev level s) = initialized s \<and>
   last_report (re_emergency_sequence ev level s) = last_report s \<and>
   new_events s (re_emergency_sequence ev level s) =
     [E_time,
      E_pthread_create
        \<lparr> type = RESPONSE_LOCKDOWN, severity = 10, target_zones = 0xFFFFFFFF,
          duration = 3600, auth_level = 5, trigger_event = emergency_trigger_event,
          timestamp = time_rv ev (length (trace s)), retry_count = 0, timeout_seconds = 0 \<rparr>,
      E_pthread_detach]"
  by (simp add: re_emergency_sequence_def Let_def split_def c_time_def AUTH_LEVEL_5_def)

theorem emergency_sequence_request_witness:
  "emergency_mode (re_emergency_sequence quiet_env 9 ready_state) \<and>
   current_level (re_emergency_sequence quiet_env 9 ready_state) = 9 \<and>
   new_events ready_state (re_emergency_sequence quiet_env 9 ready_state) =
     [E_time,
      E_pthread_create
        \<lparr> type = 1, severity = 10, target_zones = 0xFFFFFFFF,
          duration = 3600, auth_level = 5, trigger_event = emergency_trigger_event,
          timestamp = 1700000004, retry_count = 0, timeout_seconds = 0 \<rparr>,
      E_pthread_detach]"
  using emergency_sequence_request [of quiet_env 9 ready_state]
  by (simp add: ready_state_eq quiet_env_def stubs_def clock0_def RESPONSE_LOCKDOWN_def)

text \<open>
  Claim C7. An evacuation calls, in this order and whatever the unlock returned, the route
  unlock, the evacuation lights, the power-down and the emergency communications. It returns
  0 if and only if the unlock succeeded, and \<open>-1\<close> otherwise.
\<close>

theorem evacuation_unconditional_steps:
  "new_events s (snd (execute_evacuation_protocol ev r s)) =
     [E_unlock_evacuation_routes (target_zones r), E_activate_evacuation_lights (target_zones r),
      E_power_down_non_essential (target_zones r), E_enable_emergency_comms] \<and>
   fst (execute_evacuation_protocol ev r s) =
     (if unlock_evacuation_routes ev (target_zones r) = 0 then 0 else - 1) \<and>
   (fst (execute_evacuation_protocol ev r s) = 0) =
     (unlock_evacuation_routes ev (target_zones r) = 0)"
  by (simp add: evac_trace) (simp add: execute_evacuation_protocol_def Let_def)

theorem evacuation_unconditional_steps_witness:
  "new_events ready_state
     (snd (execute_evacuation_protocol unlock_fails_env
        (request_of RESPONSE_EVACUATION 0x3) ready_state)) =
     [E_unlock_evacuation_routes 0x3, E_activate_evacuation_lights 0x3,
      E_power_down_non_essential 0x3, E_enable_emergency_comms] \<and>
   fst (execute_evacuation_protocol unlock_fails_env
        (request_of RESPONSE_EVACUATION 0x3) ready_state) = - 1 \<and>
   fst (execute_evacuation_protocol quiet_env
        (request_of RESPONSE_EVACUATION 0x3) ready_state) = 0"
  using evacuation_unconditional_steps
      [of ready_state unlock_fails_env "request_of RESPONSE_EVACUATION 0x3"]
    evacuation_unconditional_steps
      [of ready_state quiet_env "request_of RESPONSE_EVACUATION 0x3"]
  by (simp add: request_of_def unlock_fails_env_def quiet_env_def stubs_def refuse_zones_def)

text \<open>
  Claim C8. \<open>re_init_integrated\<close> on an initialized state returns 0 and leaves the state as
  it is: no readiness check is logged and the three flags keep their values.
\<close>

theorem init_idempotent:
  "initialized s \<Longrightarrow>
     re_init_integrated ev s = (0, s) \<and>
     new_events s (snd (re_init_integrated ev s)) = [] \<and>
     initialized (snd (re_init_integrated ev s)) = initialized s \<and>
     emergency_mode (snd (re_init_integrated ev s)) = emergency_mode s \<and>
     current_level (snd (re_init_integrated ev s)) = current_level s"
  by (simp add: re_init_integrated_def)

text \<open>
  Two calls in a row from the initial state: the first runs the four checks and succeeds,
  the second returns 0 and logs nothing.
\<close>

theorem init_idempotent_witness:
  "re_init_integrated quiet_env initial_state = (0, ready_state) \<and>
   new_events initial_state ready_state =
     [E_pthread_mutex_init, E_check_hardware_readiness, E_init_network_subsystem,
      E_init_access_control] \<and>
   initialized ready_state \<and>
   re_init_integrated quiet_env ready_state = (0, ready_state) \<and>
   new_events ready_state (snd (re_init_integrated quiet_env ready_state)) = []"
proof -
  have first: "re_init_integrated quiet_env initial_state = (0, ready_state)"
    by (simp add: ready_state_def re_init_integrated_def quiet_env_def stubs_def
        initial_state_def Let_def)
  have logged: "new_events initial_state ready_state =
     [E_pthread_mutex_init, E_check_hardware_readiness, E_init_network_subsystem,
      E_init_access_control]"
    by (simp add: ready_state_eq new_events_def initial_state_def)
  have ready: "initialized ready_state"
    by (simp add: ready_state_eq)
  from first logged ready init_idempotent [of ready_state quiet_env, OF ready]
  show ?thesis by simp
qed

text \<open>
  Claim C9. On an initialized state a request of type \<open>RESPONSE_COMMS_PRIORITY\<close> takes the
  \<open>default\<close> branch: the result is \<open>-99\<close>, the summary is the one for an unknown type, and
  between the lock and the unlock only the clock is read. The outcome is the very one of a
  request whose type is outside the enumeration.
\<close>

theorem comms_priority_unhandled:
  "initialized s \<Longrightarrow> type r = RESPONSE_COMMS_PRIORITY \<Longrightarrow>
   t < RESPONSE_LOCKDOWN \<or> RESPONSE_FULL_RECOVERY < t \<Longrightarrow>
     fst (re_execute_integrated ev (Some r) s) = RESPONSE_ERROR_CRITICAL_FAILURE \<and>
     fst (re_execute_integrated ev (Some r) s) = - 99 \<and>
     status_summary (last_report (snd (re_execute_integrated ev (Some r) s)))
       = summary_unknown_type \<and>
     new_events s (snd (re_execute_integrated ev (Some r) s))
       = [E_pthread_mutex_lock, E_time, E_time, E_pthread_mutex_unlock] \<and>
     re_execute_integrated ev (Some (r\<lparr>type := t\<rparr>)) s = re_execute_integrated ev (Some r) s"
proof -
  assume init: "initialized s" and comms: "type r = RESPONSE_COMMS_PRIORITY"
    and unknown: "t < RESPONSE_LOCKDOWN \<or> RESPONSE_FULL_RECOVERY < t"
  have run: "re_execute_integrated ev (Some r) s = (- 99,
      emit E_pthread_mutex_unlock
        ((emit E_time (emit E_time (emit E_pthread_mutex_lock s)))
           \<lparr>last_report := zero_report
              \<lparr>response_id := timestamp r,
               start_time := time_rv ev (Suc (length (trace s))),
               status_summary := summary_unknown_type,
               end_time := time_rv ev (Suc (Suc (length (trace s)))),
               overall_result := - 99,
               sub_operations := 4\<rparr>\<rparr>))"
    using init comms by (intro exec_default) simp_all
  have same: "re_execute_integrated ev (Some (r\<lparr>type := t\<rparr>)) s
      = re_execute_integrated ev (Some r) s"
    unfolding run using init unknown by (subst exec_default) simp_all
  show ?thesis
    unfolding same unfolding run
    by (simp add: RESPONSE_ERROR_CRITICAL_FAILURE_def new_events_def)
qed

theorem comms_priority_unhandled_witness:
  "initialized ready_state \<and>
   type (request_of RESPONSE_COMMS_PRIORITY 0x1) = 6 \<and>
   fst (re_execute_integrated quiet_env
          (Some (request_of RESPONSE_COMMS_PRIORITY 0x1)) ready_state) = - 99 \<and>
   status_summary (last_report (snd (re_execute_integrated quiet_env
          (Some (request_of RESPONSE_COMMS_PRIORITY 0x1)) ready_state)))
     = summary_unknown_type \<and>
   re_execute_integrated quiet_env (Some (request_of 42 0x1)) ready_state
     = re_execute_integrated quiet_env (Some (request_of RESPONSE_COMMS_PRIORITY 0x1))
         ready_state"
proof -
  have ready: "initialized ready_state"
    by (simp add: ready_state_eq)
  have comms: "type (request_of RESPONSE_COMMS_PRIORITY 0x1) = RESPONSE_COMMS_PRIORITY"
    by (simp add: request_of_def)
  have unknown: "(42::int) < RESPONSE_LOCKDOWN \<or> RESPONSE_FULL_RECOVERY < 42"
    by (simp add: response_type_defs)
  have retype: "(request_of RESPONSE_COMMS_PRIORITY 0x1)\<lparr>type := 42\<rparr> = request_of 42 0x1"
    by (simp add: request_of_def)
  from comms_priority_unhandled [of ready_state "request_of RESPONSE_COMMS_PRIORITY 0x1" 42
      quiet_env, OF ready comms unknown] ready
  show ?thesis
    by (simp add: retype) (simp add: request_of_def RESPONSE_COMMS_PRIORITY_def)
qed

text \<open>
  Claim C10. After any dispatch that passes the entry check, whatever the request's type and
  whatever the environment answers, the published report has \<open>sub_operations = 4\<close> and
  \<open>success_count\<close>, \<open>failed_count\<close> and \<open>warning_count\<close> all 0.
\<close>

theorem report_counters_constant:
  "initialized s \<Longrightarrow>
     sub_operations (last_report (snd (re_execute_integrated ev (Some r) s))) = 4 \<and>
     success_count (last_report (snd (re_execute_integrated ev (Some r) s))) = 0 \<and>
     failed_count (last_report (snd (re_execute_integrated ev (Some r) s))) = 0 \<and>
     warning_count (last_report (snd (re_execute_integrated ev (Some r) s))) = 0"
  by (simp add: re_execute_integrated_def split_def Let_def switch_counts zero_report_def)

text \<open>A failover whose every shell command fails, and a backup activation.\<close>

theorem report_counters_constant_witness:
  "initialized ready_state \<and>
   sub_operations (last_report (snd (re_execute_integrated failing_shell_env
      (Some (request_of RESPONSE_SERVICE_FAILOVER 0)) ready_state))) = 4 \<and>
   success_count (last_report (snd (re_execute_integrated failing_shell_env
      (Some (request_of RESPONSE_SERVICE_FAILOVER 0)) ready_state))) = 0 \<and>
   failed_count (last_report (snd (re_execute_integrated failing_shell_env
      (Some (request_of RESPONSE_SERVICE_FAILOVER 0)) ready_state))) = 0 \<and>
   warning_count (last_report (snd (re_execute_integrated failing_shell_env
      (Some (request_of RESPONSE_SERVICE_FAILOVER 0)) ready_state))) = 0 \<and>
   sub_operations (last_report (snd (re_execute_integrated quiet_env
      (Some (request_of RESPONSE_BACKUP_ACTIVATE 0)) ready_state))) = 4"
proof -
  have ready: "initialized ready_state"
    by (simp add: ready_state_eq)
  from report_counters_constant [of ready_state failing_shell_env
      "request_of RESPONSE_SERVICE_FAILOVER 0", OF ready]
    report_counters_constant [of ready_state quiet_env
      "request_of RESPONSE_BACKUP_ACTIVATE 0", OF ready] ready
  show ?thesis by simp
qed

end
